theory Spec2Isabelle
  imports Main
begin

section \<open>The theme script \<^verbatim>\<open>static/app.js\<close>\<close>

text \<open>
  The script is one immediately invoked function of twelve lines. It reads the stored
  theme, falls back to the media query of the operating system, marks the body of the
  document with the class \<^verbatim>\<open>light\<close>, and binds a click listener on the element
  \<^verbatim>\<open>theme-toggle\<close> that flips the class and stores the new theme.

  Everything the script touches belongs to the browser: \<^verbatim>\<open>window.matchMedia\<close>,
  \<^verbatim>\<open>localStorage\<close>, \<^verbatim>\<open>document.body.classList\<close> and
  \<^verbatim>\<open>document.getElementById\<close>. They are modelled as the fields of one record,
  passed through every operation and returned updated.
\<close>

subsection \<open>JavaScript values\<close>

text \<open>
  The values the script computes with: \<^verbatim>\<open>undefined\<close> (a missing
  \<^verbatim>\<open>window.matchMedia\<close>), \<^verbatim>\<open>null\<close> (a key that is not stored), booleans
  and strings. \<open>truthy\<close> is the conversion to boolean used by \<^verbatim>\<open>||\<close> and by the
  conditional operator: of these values, \<^verbatim>\<open>undefined\<close>, \<^verbatim>\<open>null\<close>,
  \<^verbatim>\<open>false\<close> and the empty string are falsy.
\<close>

datatype jsval = Undefined | Null | JBool bool | JStr string

fun truthy :: "jsval \<Rightarrow> bool" where
  "truthy Undefined = False"
| "truthy Null = False"
| "truthy (JBool b) = b"
| "truthy (JStr s) = (s \<noteq> [])"

text \<open>\<^verbatim>\<open>a || b\<close>: the left operand when it is truthy, the right one otherwise.\<close>

definition js_or :: "jsval \<Rightarrow> jsval \<Rightarrow> jsval" where
  "js_or a b = (if truthy a then a else b)"

subsection \<open>The page\<close>

text \<open>
  Calls of the storage and of the class list are recorded in \<open>trace\<close>, in the order
  the script makes them, so that the number of reads and writes can be stated.
\<close>

datatype effect =
    StorageGet string
  | StorageSet string string
  | ClassAdd string
  | ClassToggle string

text \<open>The one function the script registers as a listener (lines 9 to 12).\<close>

datatype listener = ThemeClick

datatype error = TypeError

text \<open>
  \<^item> \<open>matchMedia\<close>: \<open>None\<close> when \<^verbatim>\<open>window.matchMedia\<close> is undefined, else the
    function from a media query to the \<^verbatim>\<open>matches\<close> field of its result;
  \<^item> \<open>localStorage\<close>: the stored items, a partial map from keys to strings;
  \<^item> \<open>classList\<close>: the tokens of \<^verbatim>\<open>document.body.classList\<close>, in order;
  \<^item> \<open>elementIds\<close>: the ids of the elements of the document;
  \<^item> \<open>listeners\<close>: the registered event listeners as (element id, event type,
    listener), in order of registration.

  \<^verbatim>\<open>document.body\<close> is an element, as the interface of the document declares it;
  the script reads it with no guard, unlike \<^verbatim>\<open>window.matchMedia\<close> and the result of
  \<^verbatim>\<open>getElementById\<close>, which it tests before use.
\<close>

record page =
  matchMedia :: "(string \<Rightarrow> bool) option"
  localStorage :: "string \<rightharpoonup> string"
  classList :: "string list"
  elementIds :: "string set"
  listeners :: "(string \<times> string \<times> listener) list"
  trace :: "effect list"

subsection \<open>Browser operations\<close>

text \<open>\<^verbatim>\<open>localStorage.getItem(k)\<close>: the stored string, or \<^verbatim>\<open>null\<close>.\<close>

definition getItem :: "string \<Rightarrow> page \<Rightarrow> jsval \<times> page" where
  "getItem k s =
     ((case localStorage s k of None \<Rightarrow> Null | Some v \<Rightarrow> JStr v),
      s\<lparr>trace := trace s @ [StorageGet k]\<rparr>)"

text \<open>\<^verbatim>\<open>localStorage.setItem(k, v)\<close>.\<close>

definition setItem :: "string \<Rightarrow> string \<Rightarrow> page \<Rightarrow> page" where
  "setItem k v s =
     s\<lparr>localStorage := (localStorage s)(k \<mapsto> v), trace := trace s @ [StorageSet k v]\<rparr>"

text \<open>\<^verbatim>\<open>classList.contains(t)\<close>.\<close>

definition contains :: "string \<Rightarrow> page \<Rightarrow> bool" where
  "contains t s = (t \<in> set (classList s))"

text \<open>\<^verbatim>\<open>classList.add(t)\<close>: appends the token unless it is there already.\<close>

definition classList_add :: "string \<Rightarrow> page \<Rightarrow> page" where
  "classList_add t s =
     s\<lparr>classList := (if t \<in> set (classList s) then classList s else classList s @ [t]),
       trace := trace s @ [ClassAdd t]\<rparr>"

text \<open>
  \<^verbatim>\<open>classList.toggle(t)\<close>: removes the token and returns \<^verbatim>\<open>false\<close> when it
  is there, appends it and returns \<^verbatim>\<open>true\<close> otherwise.
\<close>

definition classList_toggle :: "string \<Rightarrow> page \<Rightarrow> bool \<times> page" where
  "classList_toggle t s =
     (if t \<in> set (classList s)
      then (False, s\<lparr>classList := removeAll t (classList s),
                     trace := trace s @ [ClassToggle t]\<rparr>)
      else (True, s\<lparr>classList := classList s @ [t],
                    trace := trace s @ [ClassToggle t]\<rparr>))"

text \<open>\<^verbatim>\<open>document.getElementById(i)\<close>: the element, here its id, or \<^verbatim>\<open>null\<close>.\<close>

definition getElementById :: "string \<Rightarrow> page \<Rightarrow> string option" where
  "getElementById i s = (if i \<in> elementIds s then Some i else None)"

text \<open>
  \<^verbatim>\<open>target.addEventListener(ev, h)\<close>. Calling a method of \<^verbatim>\<open>null\<close> throws a
  \<^verbatim>\<open>TypeError\<close>.
\<close>

definition addEventListener ::
  "string option \<Rightarrow> string \<Rightarrow> listener \<Rightarrow> page \<Rightarrow> error + page" where
  "addEventListener target ev h s =
     (case target of
        None \<Rightarrow> Inl TypeError
      | Some el \<Rightarrow> Inr (s\<lparr>listeners := listeners s @ [(el, ev, h)]\<rparr>))"

subsection \<open>The script\<close>

text \<open>Line 2.\<close>

definition key :: string where
  "key = ''theme''"

text \<open>
  Line 3: \<^verbatim>\<open>window.matchMedia && window.matchMedia("(prefers-color-scheme: light)").matches\<close>.
  When \<^verbatim>\<open>window.matchMedia\<close> is undefined the conjunction is that falsy value and
  the call is not made; a function is truthy, so otherwise it is the \<^verbatim>\<open>matches\<close>
  field of the query.
\<close>

definition prefersLight :: "page \<Rightarrow> jsval" where
  "prefersLight s =
     (case matchMedia s of
        None \<Rightarrow> Undefined
      | Some mq \<Rightarrow> JBool (mq ''(prefers-color-scheme: light)''))"

text \<open>
  Line 4:
  \<^verbatim>\<open>const initial = localStorage.getItem(key) || (prefersLight ? "light" : "dark")\<close>.
\<close>

definition initial :: "page \<Rightarrow> jsval \<times> page" where
  "initial s =
     (let pl = prefersLight s;
          (stored, s') = getItem key s
      in (js_or stored (JStr (if truthy pl then ''light'' else ''dark'')), s'))"

text \<open>
  Lines 2 to 5, the part the specification calls initialize():
  \<^verbatim>\<open>if(initial === "light") document.body.classList.add("light")\<close>.
\<close>

definition initialize :: "page \<Rightarrow> page" where
  "initialize s =
     (let (v, s') = initial s
      in if v = JStr ''light'' then classList_add ''light'' s' else s')"

text \<open>
  Lines 10 and 11, the body of the click listener:
  \<^verbatim>\<open>const isLight = document.body.classList.toggle("light");
  localStorage.setItem(key, isLight ? "light" : "dark")\<close>.
\<close>

definition click_handler :: "page \<Rightarrow> page" where
  "click_handler s =
     (let (isLight, s') = classList_toggle ''light'' s
      in setItem key (if isLight then ''light'' else ''dark'') s')"

text \<open>
  The whole function, lines 1 to 13. After the initialisation it looks the button up,
  returns when there is none (\<^verbatim>\<open>if(!btn) return\<close>), and registers the listener
  otherwise.
\<close>

definition theme_iife :: "page \<Rightarrow> error + page" where
  "theme_iife s =
     (let s1 = initialize s;
          btn = getElementById ''theme-toggle'' s1
      in if btn = None then Inr s1
         else addEventListener btn ''click'' ThemeClick s1)"

subsection \<open>Events\<close>

fun run_listener :: "listener \<Rightarrow> page \<Rightarrow> page" where
  "run_listener ThemeClick s = click_handler s"

text \<open>
  A click on the element \<open>el\<close> runs, in order of registration, the listeners registered
  on it for the event \<^verbatim>\<open>click\<close>.
\<close>

definition click :: "string \<Rightarrow> page \<Rightarrow> page" where
  "click el s =
     fold (\<lambda>(t, ev, h) s'. if t = el \<and> ev = ''click'' then run_listener h s' else s')
          (listeners s) s"

text \<open>\<open>n\<close> toggle activations: \<open>n\<close> runs of the listener, one after the other.\<close>

fun activations :: "nat \<Rightarrow> page \<Rightarrow> page" where
  "activations 0 s = s"
| "activations (Suc n) s = activations n (click_handler s)"

text \<open>\<open>n\<close> clicks on the button.\<close>

fun clicks :: "nat \<Rightarrow> page \<Rightarrow> page" where
  "clicks 0 s = s"
| "clicks (Suc n) s = clicks n (click ''theme-toggle'' s)"

text \<open>A run of the program: the script at page load, then \<open>n\<close> clicks on the button.\<close>

definition run :: "nat \<Rightarrow> page \<Rightarrow> error + page" where
  "run n s = (case theme_iife s of Inl e \<Rightarrow> Inl e | Inr s' \<Rightarrow> Inr (clicks n s'))"

subsection \<open>Observations\<close>

text \<open>The marker class is on the root container.\<close>

definition marked :: "page \<Rightarrow> bool" where
  "marked s = contains ''light'' s"

text \<open>The value stored under the key \<^verbatim>\<open>theme\<close>.\<close>

definition persisted :: "page \<Rightarrow> string option" where
  "persisted s = localStorage s key"

text \<open>The string that names the state the page shows.\<close>

definition theme_of :: "page \<Rightarrow> string" where
  "theme_of s = (if marked s then ''light'' else ''dark'')"

text \<open>
  Modelled from the spec: the markup of the page is not part of the source, so the class
  attribute of the body at load is a parameter. The specification takes the unmarked
  container as the default (``otherwise leave it absent (the default/unmarked state
  represents dark)''): when the script starts, the body does not carry the marker class,
  and the script has not registered a listener yet.
\<close>

definition page_load :: "page \<Rightarrow> bool" where
  "page_load s = (\<not> marked s \<and> listeners s = [])"

text \<open>A page with no listener registered and an empty trace, for concrete examples.\<close>

definition new_page ::
  "(string \<Rightarrow> bool) option \<Rightarrow> (string \<rightharpoonup> string) \<Rightarrow> string list \<Rightarrow> string set \<Rightarrow> page" where
  "new_page mm st cs ids =
     \<lparr>matchMedia = mm, localStorage = st, classList = cs, elementIds = ids,
      listeners = [], trace = []\<rparr>"

section \<open>Properties\<close>

subsection \<open>The initialisation\<close>

lemma initial_page: "snd (initial s) = s\<lparr>trace := trace s @ [StorageGet key]\<rparr>"
  by (simp add: initial_def getItem_def)

lemma initial_value:
  "fst (initial s) =
     (case localStorage s key of
        None \<Rightarrow> JStr (if truthy (prefersLight s) then ''light'' else ''dark'')
      | Some v \<Rightarrow>
          if v = [] then JStr (if truthy (prefersLight s) then ''light'' else ''dark'')
          else JStr v)"
  by (simp add: initial_def getItem_def js_or_def split: option.split)

lemma initial_same_environment:
  "localStorage s key = localStorage t key \<Longrightarrow> truthy (prefersLight s) = truthy (prefersLight t)
   \<Longrightarrow> fst (initial s) = fst (initial t)"
  by (simp add: initial_value)

lemma initialize_unfold:
  "initialize s =
     (if fst (initial s) = JStr ''light''
      then classList_add ''light'' (s\<lparr>trace := trace s @ [StorageGet key]\<rparr>)
      else s\<lparr>trace := trace s @ [StorageGet key]\<rparr>)"
proof (cases "initial s")
  case (Pair v s')
  with initial_page [of s] show ?thesis
    by (simp add: initialize_def)
qed

lemma initialize_localStorage: "localStorage (initialize s) = localStorage s"
  by (simp add: initialize_unfold classList_add_def)

lemma initialize_matchMedia: "matchMedia (initialize s) = matchMedia s"
  by (simp add: initialize_unfold classList_add_def)

lemma initialize_elementIds: "elementIds (initialize s) = elementIds s"
  by (simp add: initialize_unfold classList_add_def)

lemma initialize_listeners: "listeners (initialize s) = listeners s"
  by (simp add: initialize_unfold classList_add_def)

lemma initialize_classList:
  "classList (initialize s) =
     (if fst (initial s) = JStr ''light'' \<and> ''light'' \<notin> set (classList s)
      then classList s @ [''light''] else classList s)"
  by (simp add: initialize_unfold classList_add_def)

lemma initialize_trace:
  "trace (initialize s) =
     trace s @ StorageGet key #
       (if fst (initial s) = JStr ''light'' then [ClassAdd ''light''] else [])"
  by (simp add: initialize_unfold classList_add_def)

lemma initialize_marked: "marked (initialize s) = (marked s \<or> fst (initial s) = JStr ''light'')"
  by (auto simp add: initialize_classList marked_def contains_def)

lemma initialize_persisted: "persisted (initialize s) = persisted s"
  by (simp add: persisted_def initialize_localStorage)

lemma prefersLight_initialize: "prefersLight (initialize s) = prefersLight s"
  by (simp add: prefersLight_def initialize_matchMedia)

text \<open>
  C1, as stated: the initial preference is the stored value whenever one is present. A
  stored empty string is present and is not the preference: \<^verbatim>\<open>||\<close> takes it for
  false, the media query decides, and here the body gets the marker class.
\<close>

theorem stored_empty_string_is_not_the_preference:
  "\<not> (fst (initial (new_page (Some (\<lambda>q. True)) [''theme'' \<mapsto> ''''] [] {})) =
       (case localStorage (new_page (Some (\<lambda>q. True)) [''theme'' \<mapsto> ''''] [] {}) ''theme'' of
          Some v \<Rightarrow> JStr v
        | None \<Rightarrow>
            JStr (if truthy (prefersLight (new_page (Some (\<lambda>q. True)) [''theme'' \<mapsto> ''''] [] {}))
                  then ''light'' else ''dark'')))"
  by (simp add: initial_value key_def new_page_def prefersLight_def)

text \<open>
  C1, amended. The initial preference is the value stored under the key
  \<^verbatim>\<open>theme\<close> if one is present and not the empty string, otherwise
  \<^verbatim>\<open>light\<close> if the media query reports a preference for light, otherwise
  \<^verbatim>\<open>dark\<close>. The script calls \<^verbatim>\<open>classList.add("light")\<close> exactly when
  that preference is \<^verbatim>\<open>light\<close>, so that on a page loaded without the marker the
  marker is present afterwards exactly then; in particular, for a stored value
  \<^verbatim>\<open>light\<close> or \<^verbatim>\<open>dark\<close>, exactly when it is \<^verbatim>\<open>light\<close>.
\<close>

theorem initialize_resolves_preference:
  "fst (initial s) =
     (case localStorage s ''theme'' of
        None \<Rightarrow> JStr (if truthy (prefersLight s) then ''light'' else ''dark'')
      | Some v \<Rightarrow>
          if v = '''' then JStr (if truthy (prefersLight s) then ''light'' else ''dark'')
          else JStr v) \<and>
   trace (initialize s) =
     trace s @ StorageGet ''theme'' #
       (if fst (initial s) = JStr ''light'' then [ClassAdd ''light''] else []) \<and>
   (page_load s \<longrightarrow> marked (initialize s) = (fst (initial s) = JStr ''light'')) \<and>
   (page_load s \<and> localStorage s ''theme'' = Some v \<and> (v = ''light'' \<or> v = ''dark'') \<longrightarrow>
      marked (initialize s) = (v = ''light''))"
proof -
  have stored: "fst (initial s) = JStr v"
    if "localStorage s ''theme'' = Some v" "v = ''light'' \<or> v = ''dark''"
    using that by (auto simp add: initial_value key_def)
  have "marked (initialize s) = (v = ''light'')"
    if "page_load s" "localStorage s ''theme'' = Some v" "v = ''light'' \<or> v = ''dark''"
    using that stored by (auto simp add: initialize_marked page_load_def)
  moreover have "marked (initialize s) = (fst (initial s) = JStr ''light'')" if "page_load s"
    using that by (simp add: initialize_marked page_load_def)
  moreover note initial_value [of s] initialize_trace [of s]
  ultimately show ?thesis
    by (simp add: key_def)
qed

theorem initialize_resolves_preference_witness:
  "page_load (new_page None [''theme'' \<mapsto> ''light''] [''wide''] {}) \<and>
   localStorage (new_page None [''theme'' \<mapsto> ''light''] [''wide''] {}) ''theme'' = Some ''light'' \<and>
   fst (initial (new_page None [''theme'' \<mapsto> ''light''] [''wide''] {})) = JStr ''light'' \<and>
   marked (initialize (new_page None [''theme'' \<mapsto> ''light''] [''wide''] {}))"
  using initialize_resolves_preference
    [of "new_page None [''theme'' \<mapsto> ''light''] [''wide''] {}" "''light''"]
  by (simp add: new_page_def page_load_def marked_def contains_def)

text \<open>
  C2. When nothing is stored under the key \<^verbatim>\<open>theme\<close>, a page loaded without the
  marker is Light (marker present) after the initialisation if the media query reports
  a preference for light, and Dark (marker absent) if it reports none or if
  \<^verbatim>\<open>window.matchMedia\<close> is unavailable.
\<close>

theorem initialize_without_stored_value:
  assumes "page_load s" and "localStorage s ''theme'' = None"
  shows "marked (initialize s) =
           (case matchMedia s of
              None \<Rightarrow> False
            | Some mq \<Rightarrow> mq ''(prefers-color-scheme: light)'')"
  using assms
  by (simp add: initialize_marked page_load_def initial_value key_def prefersLight_def
      split: option.split)

theorem initialize_without_stored_value_witness:
  "page_load (new_page (Some (\<lambda>q. q = ''(prefers-color-scheme: light)'')) Map.empty [] {}) \<and>
   marked (initialize
     (new_page (Some (\<lambda>q. q = ''(prefers-color-scheme: light)'')) Map.empty [] {})) \<and>
   page_load (new_page None Map.empty [] {}) \<and>
   \<not> marked (initialize (new_page None Map.empty [] {}))"
  using
    initialize_without_stored_value
      [of "new_page (Some (\<lambda>q. q = ''(prefers-color-scheme: light)'')) Map.empty [] {}"]
    initialize_without_stored_value [of "new_page None Map.empty [] {}"]
  by (simp add: new_page_def page_load_def marked_def contains_def)

text \<open>
  C6. The initialisation is idempotent on the applied state: it leaves the storage and
  the media query as they are, and a second run in a row leaves the class list, hence
  the marker, as the first run made it.
\<close>

theorem initialize_idempotent:
  "classList (initialize (initialize s)) = classList (initialize s) \<and>
   marked (initialize (initialize s)) = marked (initialize s) \<and>
   localStorage (initialize s) = localStorage s \<and>
   matchMedia (initialize s) = matchMedia s"
proof -
  have same: "fst (initial (initialize s)) = fst (initial s)"
    by (rule initial_same_environment)
      (simp_all add: initialize_localStorage prefersLight_initialize)
  have "classList (initialize (initialize s)) = classList (initialize s)"
    by (simp add: initialize_classList [of "initialize s"] same)
      (simp add: initialize_classList [of s])
  then show ?thesis
    by (simp add: marked_def contains_def initialize_localStorage initialize_matchMedia)
qed

text \<open>
  C9. A stored empty string is treated as if nothing were stored: the preference and
  the class list come out as on the same page with the key removed. Every other stored
  value that is not exactly \<^verbatim>\<open>light\<close> leaves the class list as it was, so a page
  loaded without the marker is Dark.
\<close>

theorem stored_value_edge_cases:
  "(localStorage s ''theme'' = Some '''' \<longrightarrow>
      fst (initial s) = fst (initial (s\<lparr>localStorage := (localStorage s)(''theme'' := None)\<rparr>)) \<and>
      classList (initialize s) =
        classList (initialize (s\<lparr>localStorage := (localStorage s)(''theme'' := None)\<rparr>))) \<and>
   (localStorage s ''theme'' = Some v \<and> v \<noteq> '''' \<and> v \<noteq> ''light'' \<longrightarrow>
      classList (initialize s) = classList s \<and> (page_load s \<longrightarrow> \<not> marked (initialize s)))"
proof -
  have empty: "fst (initial s) = fst (initial (s\<lparr>localStorage := (localStorage s)(''theme'' := None)\<rparr>))"
    if "localStorage s ''theme'' = Some ''''"
    using that by (simp add: initial_value key_def prefersLight_def)
  have other: "fst (initial s) \<noteq> JStr ''light''"
    if "localStorage s ''theme'' = Some v" "v \<noteq> ''''" "v \<noteq> ''light''"
    using that by (simp add: initial_value key_def)
  show ?thesis
    using empty other
    by (auto simp add: initialize_classList initialize_marked page_load_def)
qed

theorem stored_value_edge_cases_witness:
  "localStorage (new_page (Some (\<lambda>q. True)) [''theme'' \<mapsto> ''''] [] {}) ''theme'' = Some '''' \<and>
   classList (initialize (new_page (Some (\<lambda>q. True)) [''theme'' \<mapsto> ''''] [] {})) = [''light''] \<and>
   localStorage (new_page (Some (\<lambda>q. True)) [''theme'' \<mapsto> ''Light''] [] {}) ''theme'' = Some ''Light'' \<and>
   page_load (new_page (Some (\<lambda>q. True)) [''theme'' \<mapsto> ''Light''] [] {}) \<and>
   \<not> marked (initialize (new_page (Some (\<lambda>q. True)) [''theme'' \<mapsto> ''Light''] [] {}))"
  using
    stored_value_edge_cases [of "new_page (Some (\<lambda>q. True)) [''theme'' \<mapsto> ''''] [] {}"]
    stored_value_edge_cases
      [of "new_page (Some (\<lambda>q. True)) [''theme'' \<mapsto> ''Light''] [] {}" "''Light''"]
  by (simp add: new_page_def page_load_def marked_def contains_def initialize_classList
      initial_value key_def prefersLight_def)

subsection \<open>The click listener\<close>

lemma click_handler_marked: "marked (click_handler s) = (\<not> marked s)"
  by (simp add: click_handler_def classList_toggle_def setItem_def marked_def contains_def)

lemma click_handler_persisted: "persisted (click_handler s) = Some (theme_of (click_handler s))"
  by (simp add: click_handler_def classList_toggle_def setItem_def marked_def contains_def
      persisted_def theme_of_def)

text \<open>
  C3. Every activation of the listener flips the marker class, present to absent and
  absent to present, and stores under the key \<^verbatim>\<open>theme\<close> the string
  \<^verbatim>\<open>light\<close> when the class is present after the flip, \<^verbatim>\<open>dark\<close> otherwise.
\<close>

theorem click_handler_flips_and_stores:
  "marked (click_handler s) = (\<not> marked s) \<and>
   localStorage (click_handler s) ''theme'' =
     Some (if marked (click_handler s) then ''light'' else ''dark'')"
  using click_handler_marked [of s] click_handler_persisted [of s]
  by (simp add: persisted_def theme_of_def key_def)


lemma click_handler_classList:
  "classList (click_handler s) =
     (if ''light'' \<in> set (classList s) then removeAll ''light'' (classList s)
      else classList s @ [''light''])"
  by (simp add: click_handler_def classList_toggle_def setItem_def)

lemma click_handler_localStorage:
  "localStorage (click_handler s) = (localStorage s)(key \<mapsto> theme_of (click_handler s))"
  by (simp add: click_handler_def classList_toggle_def setItem_def theme_of_def marked_def
      contains_def)

lemma click_handler_trace:
  "trace (click_handler s) =
     trace s @ [ClassToggle ''light'', StorageSet key (theme_of (click_handler s))]"
  by (simp add: click_handler_def classList_toggle_def setItem_def theme_of_def marked_def
      contains_def)

lemma click_handler_matchMedia: "matchMedia (click_handler s) = matchMedia s"
  by (simp add: click_handler_def classList_toggle_def setItem_def)

lemma click_handler_elementIds: "elementIds (click_handler s) = elementIds s"
  by (simp add: click_handler_def classList_toggle_def setItem_def)

lemma click_handler_listeners: "listeners (click_handler s) = listeners s"
  by (simp add: click_handler_def classList_toggle_def setItem_def)

lemma click_handler_twice_classes:
  "set (classList (click_handler (click_handler s))) = set (classList s)"
  by (auto simp add: click_handler_classList)

lemma click_handler_twice_persisted:
  "persisted (click_handler (click_handler s)) = Some (theme_of s)"
  by (simp add: click_handler_persisted theme_of_def click_handler_marked)

lemma activations_last: "activations (Suc n) s = click_handler (activations n s)"
  by (induction n arbitrary: s) simp_all

lemma activations_agree:
  "marked s = marked t \<Longrightarrow> persisted s = persisted t \<Longrightarrow>
   marked (activations n s) = marked (activations n t) \<and>
   persisted (activations n s) = persisted (activations n t)"
proof (induction n arbitrary: s t)
  case 0
  then show ?case by simp
next
  case (Suc n)
  have "marked (click_handler s) = marked (click_handler t)"
    using Suc.prems(1) by (simp add: click_handler_marked)
  moreover from this have "persisted (click_handler s) = persisted (click_handler t)"
    by (simp add: click_handler_persisted theme_of_def)
  ultimately show ?case
    using Suc.IH [of "click_handler s" "click_handler t"] by simp
qed

subsection \<open>Binding and clicks\<close>

lemma theme_iife_result:
  "theme_iife s =
     Inr (if ''theme-toggle'' \<in> elementIds s
          then (initialize s)\<lparr>listeners :=
                 listeners s @ [(''theme-toggle'', ''click'', ThemeClick)]\<rparr>
          else initialize s)"
  by (simp add: theme_iife_def getElementById_def addEventListener_def Let_def
      initialize_elementIds initialize_listeners)

lemma click_unbound: "listeners s = [] \<Longrightarrow> click el s = s"
  by (simp add: click_def)

lemma click_bound:
  "listeners s = [(''theme-toggle'', ''click'', ThemeClick)] \<Longrightarrow>
   click ''theme-toggle'' s = click_handler s"
  by (simp add: click_def)

lemma clicks_unbound: "listeners s = [] \<Longrightarrow> clicks n s = s"
  by (induction n arbitrary: s) (simp_all add: click_unbound)

lemma clicks_bound:
  "listeners s = [(''theme-toggle'', ''click'', ThemeClick)] \<Longrightarrow> clicks n s = activations n s"
  by (induction n arbitrary: s) (simp_all add: click_bound click_handler_listeners)

lemma run_result:
  assumes "listeners s = []"
  shows "run n s =
     Inr (if ''theme-toggle'' \<in> elementIds s
          then activations n ((initialize s)\<lparr>listeners :=
                 [(''theme-toggle'', ''click'', ThemeClick)]\<rparr>)
          else initialize s)"
  using assms
  by (simp add: run_def theme_iife_result clicks_bound clicks_unbound initialize_listeners)

lemma initialize_agree:
  assumes "page_load s" and "page_load t"
    and "localStorage s = localStorage t" and "prefersLight s = prefersLight t"
  shows "marked (initialize s) = marked (initialize t) \<and>
         persisted (initialize s) = persisted (initialize t)"
proof -
  have "fst (initial s) = fst (initial t)"
    by (rule initial_same_environment) (simp_all add: assms(3,4))
  then have "marked (initialize s) = marked (initialize t)"
    using assms(1,2) by (simp add: initialize_marked page_load_def)
  moreover have "persisted s = persisted t"
    using assms(3) by (simp add: persisted_def)
  ultimately show ?thesis
    by (simp add: initialize_persisted)
qed

text \<open>
  C4. After any number of activations, at least one, the value stored under
  \<^verbatim>\<open>theme\<close> is \<^verbatim>\<open>light\<close> exactly when the marker class is present; it is
  \<^verbatim>\<open>dark\<close> otherwise.
\<close>

theorem persisted_synchronised_after_activation:
  "(localStorage (activations (Suc n) s) ''theme'' = Some ''light'') =
     marked (activations (Suc n) s) \<and>
   localStorage (activations (Suc n) s) ''theme'' =
     Some (if marked (activations (Suc n) s) then ''light'' else ''dark'')"
  using click_handler_persisted [of "activations n s"]
  by (simp only: activations_last) (simp add: persisted_def theme_of_def key_def)

text \<open>
  C5, as stated: two activations bring the stored value back from every starting state.
  The state the initialisation reaches with nothing stored and a preference for light
  is Light with no stored value; after two activations \<^verbatim>\<open>light\<close> is stored.
\<close>

theorem double_toggle_after_first_load_stores_a_value:
  "\<not> (marked (click_handler (click_handler
          (initialize (new_page (Some (\<lambda>q. True)) Map.empty [] {''theme-toggle''})))) =
        marked (initialize (new_page (Some (\<lambda>q. True)) Map.empty [] {''theme-toggle''})) \<and>
      localStorage (click_handler (click_handler
          (initialize (new_page (Some (\<lambda>q. True)) Map.empty [] {''theme-toggle''})))) ''theme'' =
        localStorage (initialize (new_page (Some (\<lambda>q. True)) Map.empty [] {''theme-toggle''}))
          ''theme'')"
  using click_handler_twice_persisted
    [of "initialize (new_page (Some (\<lambda>q. True)) Map.empty [] {''theme-toggle''})"]
  by (simp add: persisted_def key_def initialize_localStorage new_page_def)

text \<open>
  C5, amended. From every starting state, two consecutive activations return the marker
  class (and the set of classes of the body) to what it was, and leave under
  \<^verbatim>\<open>theme\<close> the string that names the starting state. The storage is back to its
  original contents whenever the stored value named the starting state, as it does
  after any activation.
\<close>

theorem double_toggle_round_trip:
  "marked (click_handler (click_handler s)) = marked s \<and>
   set (classList (click_handler (click_handler s))) = set (classList s) \<and>
   localStorage (click_handler (click_handler s)) ''theme'' =
     Some (if marked s then ''light'' else ''dark'') \<and>
   (localStorage s ''theme'' = Some (if marked s then ''light'' else ''dark'') \<longrightarrow>
      localStorage (click_handler (click_handler s)) = localStorage s)"
proof -
  have stored: "localStorage (click_handler (click_handler s)) ''theme'' =
      Some (if marked s then ''light'' else ''dark'')"
    using click_handler_twice_persisted [of s] by (simp add: persisted_def theme_of_def key_def)
  have "localStorage (click_handler (click_handler s)) = localStorage s"
    if "localStorage s ''theme'' = Some (if marked s then ''light'' else ''dark'')"
  proof
    fix k
    show "localStorage (click_handler (click_handler s)) k = localStorage s k"
    proof (cases "k = ''theme''")
      case True
      with stored that show ?thesis by simp
    next
      case False
      then show ?thesis by (simp add: click_handler_localStorage key_def)
    qed
  qed
  with stored show ?thesis
    by (simp add: click_handler_marked click_handler_twice_classes)
qed

theorem double_toggle_round_trip_witness:
  "localStorage (new_page None [''theme'' \<mapsto> ''dark''] [''wide''] {}) ''theme'' =
     Some (if marked (new_page None [''theme'' \<mapsto> ''dark''] [''wide''] {})
           then ''light'' else ''dark'') \<and>
   localStorage (click_handler (click_handler
       (new_page None [''theme'' \<mapsto> ''dark''] [''wide''] {}))) =
     [''theme'' \<mapsto> ''dark'']"
  using double_toggle_round_trip [of "new_page None [''theme'' \<mapsto> ''dark''] [''wide''] {}"]
  by (simp add: new_page_def marked_def contains_def)

text \<open>
  C7. When the document has no element \<^verbatim>\<open>theme-toggle\<close>, the script returns
  normally, and no listener is registered. The page it leaves is the one the
  initialisation makes: the marker is present if it was there before or if the initial
  preference is \<^verbatim>\<open>light\<close>, so that on a page loaded without the marker it is
  present exactly when a stored non-empty value is \<^verbatim>\<open>light\<close> or, with no such
  value, when the media query reports a preference for light.
\<close>

theorem missing_toggle_element:
  assumes "''theme-toggle'' \<notin> elementIds s"
  shows "\<exists>s'. theme_iife s = Inr s' \<and> s' = initialize s \<and>
           listeners s' = listeners s \<and>
           marked s' = (marked s \<or> fst (initial s) = JStr ''light'') \<and>
           (page_load s \<longrightarrow>
              marked s' =
                (case localStorage s ''theme'' of
                   None \<Rightarrow> truthy (prefersLight s)
                 | Some v \<Rightarrow> if v = '''' then truthy (prefersLight s) else v = ''light''))"
proof -
  have returns: "theme_iife s = Inr (initialize s)"
    using assms by (simp add: theme_iife_result)
  have preference: "(fst (initial s) = JStr ''light'') =
      (case localStorage s ''theme'' of
         None \<Rightarrow> truthy (prefersLight s)
       | Some v \<Rightarrow> if v = '''' then truthy (prefersLight s) else v = ''light'')"
    by (simp add: initial_value key_def split: option.split)
  have "marked (initialize s) =
      (case localStorage s ''theme'' of
         None \<Rightarrow> truthy (prefersLight s)
       | Some v \<Rightarrow> if v = '''' then truthy (prefersLight s) else v = ''light'')"
    if "page_load s"
    using that preference by (simp add: initialize_marked page_load_def)
  with returns show ?thesis
    by (simp add: initialize_listeners initialize_marked)
qed

theorem missing_toggle_element_witness:
  "''theme-toggle'' \<notin> elementIds (new_page None [''theme'' \<mapsto> ''light''] [] {''menu''}) \<and>
   page_load (new_page None [''theme'' \<mapsto> ''light''] [] {''menu''}) \<and>
   (\<exists>s'. theme_iife (new_page None [''theme'' \<mapsto> ''light''] [] {''menu''}) = Inr s' \<and>
      listeners s' = [] \<and> marked s') \<and>
   ''theme-toggle'' \<notin> elementIds (new_page (Some (\<lambda>q. True)) [''theme'' \<mapsto> ''dark''] [] {}) \<and>
   page_load (new_page (Some (\<lambda>q. True)) [''theme'' \<mapsto> ''dark''] [] {}) \<and>
   (\<exists>s'. theme_iife (new_page (Some (\<lambda>q. True)) [''theme'' \<mapsto> ''dark''] [] {}) = Inr s' \<and>
      listeners s' = [] \<and> \<not> marked s')"
proof -
  let ?p = "new_page None [''theme'' \<mapsto> ''light''] [] {''menu''}"
  let ?q = "new_page (Some (\<lambda>q. True)) [''theme'' \<mapsto> ''dark''] [] {}"
  have absent: "''theme-toggle'' \<notin> elementIds ?p" "''theme-toggle'' \<notin> elementIds ?q"
    by (simp_all add: new_page_def)
  have load: "page_load ?p" "page_load ?q"
    by (simp_all add: new_page_def page_load_def marked_def contains_def)
  have stored: "localStorage ?p ''theme'' = Some ''light''"
      "localStorage ?q ''theme'' = Some ''dark''"
    by (simp_all add: new_page_def)
  have unbound: "listeners ?p = []" "listeners ?q = []"
    by (simp_all add: new_page_def)
  have "\<exists>s'. theme_iife ?p = Inr s' \<and> listeners s' = [] \<and> marked s'"
    using missing_toggle_element [OF absent(1)] load(1) stored(1) unbound(1) by auto
  moreover have "\<exists>s'. theme_iife ?q = Inr s' \<and> listeners s' = [] \<and> \<not> marked s'"
    using missing_toggle_element [OF absent(2)] load(2) stored(2) unbound(2) by auto
  ultimately show ?thesis
    using absent load by simp
qed

text \<open>
  C8. The initialisation reads the storage once, under \<^verbatim>\<open>theme\<close>, and writes
  nothing; binding the listener touches neither the storage nor the class list. An
  activation makes one call of \<^verbatim>\<open>classList.toggle\<close> and then one write under
  \<^verbatim>\<open>theme\<close>, reads nothing, and changes no other key, no other class and no
  other part of the page.
\<close>

theorem storage_and_class_effects:
  "trace (initialize s) =
     trace s @ StorageGet ''theme'' #
       (if fst (initial s) = JStr ''light'' then [ClassAdd ''light''] else []) \<and>
   localStorage (initialize s) = localStorage s \<and>
   (\<exists>s'. theme_iife s = Inr s' \<and> trace s' = trace (initialize s) \<and>
      localStorage s' = localStorage s \<and> classList s' = classList (initialize s)) \<and>
   trace (click_handler s) =
     trace s @ [ClassToggle ''light'',
                StorageSet ''theme'' (if marked (click_handler s) then ''light'' else ''dark'')] \<and>
   localStorage (click_handler s) =
     (localStorage s)(''theme'' \<mapsto> (if marked (click_handler s) then ''light'' else ''dark'')) \<and>
   removeAll ''light'' (classList (click_handler s)) = removeAll ''light'' (classList s) \<and>
   matchMedia (click_handler s) = matchMedia s \<and>
   elementIds (click_handler s) = elementIds s \<and>
   listeners (click_handler s) = listeners s"
proof -
  have "\<exists>s'. theme_iife s = Inr s' \<and> trace s' = trace (initialize s) \<and>
      localStorage s' = localStorage s \<and> classList s' = classList (initialize s)"
    by (simp add: theme_iife_result initialize_localStorage)
  moreover have "removeAll ''light'' (classList (click_handler s)) =
      removeAll ''light'' (classList s)"
    by (simp add: click_handler_classList)
  moreover note initialize_trace [of s] click_handler_trace [of s]
    click_handler_localStorage [of s]
  ultimately show ?thesis
    by (simp add: key_def theme_of_def initialize_localStorage click_handler_matchMedia
        click_handler_elementIds click_handler_listeners)
qed

text \<open>
  C10. Two runs that start at page load with the same storage contents, the same
  preference signal and the same presence of the button, followed by the same number of
  clicks on the button, both return normally with the same marker state and the same
  value stored under \<^verbatim>\<open>theme\<close>.
\<close>

theorem run_deterministic:
  assumes "page_load s" and "page_load t"
    and "localStorage s = localStorage t"
    and "prefersLight s = prefersLight t"
    and "(''theme-toggle'' \<in> elementIds s) = (''theme-toggle'' \<in> elementIds t)"
  shows "\<exists>s' t'. run n s = Inr s' \<and> run n t = Inr t' \<and>
           marked s' = marked t' \<and> localStorage s' ''theme'' = localStorage t' ''theme''"
proof -
  let ?bind = "\<lambda>p. (initialize p)\<lparr>listeners := [(''theme-toggle'', ''click'', ThemeClick)]\<rparr>"
  let ?end = "\<lambda>p. if ''theme-toggle'' \<in> elementIds p then activations n (?bind p)
                    else initialize p"
  have init: "marked (initialize s) = marked (initialize t)"
      "persisted (initialize s) = persisted (initialize t)"
    using initialize_agree [OF assms(1-4)] by simp_all
  have bound: "marked (?bind s) = marked (?bind t)" "persisted (?bind s) = persisted (?bind t)"
    using init by (simp_all add: marked_def contains_def persisted_def)
  have "marked (?end s) = marked (?end t) \<and> persisted (?end s) = persisted (?end t)"
    using activations_agree [OF bound, of n] init assms(5) by simp
  moreover have "run n s = Inr (?end s)" "run n t = Inr (?end t)"
    using assms(1,2) by (simp_all add: run_result page_load_def)
  ultimately show ?thesis
    by (simp add: persisted_def key_def)
qed

theorem run_deterministic_witness:
  "page_load (new_page (Some (\<lambda>q. True)) Map.empty [] {''theme-toggle''}) \<and>
   page_load (new_page (Some (\<lambda>q. q \<noteq> [])) Map.empty [''wide''] {''theme-toggle'', ''menu''}) \<and>
   prefersLight (new_page (Some (\<lambda>q. True)) Map.empty [] {''theme-toggle''}) =
     prefersLight (new_page (Some (\<lambda>q. q \<noteq> [])) Map.empty [''wide''] {''theme-toggle'', ''menu''}) \<and>
   (\<exists>s' t'.
      run 3 (new_page (Some (\<lambda>q. True)) Map.empty [] {''theme-toggle''}) = Inr s' \<and>
      run 3 (new_page (Some (\<lambda>q. q \<noteq> [])) Map.empty [''wide''] {''theme-toggle'', ''menu''}) =
        Inr t' \<and>
      marked s' = marked t' \<and> localStorage s' ''theme'' = localStorage t' ''theme'')"
proof -
  let ?s = "new_page (Some (\<lambda>q. True)) Map.empty [] {''theme-toggle''}"
  let ?t = "new_page (Some (\<lambda>q. q \<noteq> [])) Map.empty [''wide''] {''theme-toggle'', ''menu''}"
  have 1: "page_load ?s" and 2: "page_load ?t"
    by (simp_all add: new_page_def page_load_def marked_def contains_def)
  have 3: "localStorage ?s = localStorage ?t"
    by (simp add: new_page_def)
  have 4: "prefersLight ?s = prefersLight ?t"
    by (simp add: new_page_def prefersLight_def)
  have 5: "(''theme-toggle'' \<in> elementIds ?s) = (''theme-toggle'' \<in> elementIds ?t)"
    by (simp add: new_page_def)
  show ?thesis
    using run_deterministic [OF 1 2 3 4 5, of 3] 1 2 4 by simp
qed

end
